theory Spec2Isabelle
  imports Complex_Main
begin

section \<open>Numbers\<close>

text \<open>
  The TypeScript sources compute with \<open>number\<close>. Counts, repeat numbers and millisecond
  timestamps are integers there and are modelled as \<^typ>\<open>int\<close>; quotients are taken in
  \<^typ>\<open>real\<close>, so that \<open>Math.round\<close>, \<open>Math.floor\<close> and \<open>Math.ceil\<close> act on the exact
  quotient. The model is exact arithmetic: the rounding of IEEE doubles is left out.
\<close>

definition Math_round :: "real \<Rightarrow> int" where
  \<comment> \<open>\<open>Math.round\<close>: the nearest integer, a tie going towards \<open>+\<infinity>\<close>.\<close>
  "Math_round x = \<lfloor>x + 1 / 2\<rfloor>"

definition Math_floor :: "real \<Rightarrow> int" where
  "Math_floor x = \<lfloor>x\<rfloor>"

definition Math_ceil :: "real \<Rightarrow> int" where
  "Math_ceil x = \<lceil>x\<rceil>"

definition js_rem :: "int \<Rightarrow> int \<Rightarrow> int" where
  \<comment> \<open>The \<open>%\<close> operator on a non-zero divisor: the remainder has the sign of the dividend.\<close>
  "js_rem a b = sgn a * (\<bar>a\<bar> mod \<bar>b\<bar>)"

section \<open>Quantizer: \<open>lib/approximation.ts\<close>\<close>

definition approximateCount :: "int \<Rightarrow> int" where
  "approximateCount raw =
     (if raw \<le> 0 then 0
      else if raw \<le> 10 then 10
      else if raw \<le> 50 then Math_round (of_int raw / 10) * 10
      else if raw \<le> 200 then Math_round (of_int raw / 25) * 25
      else if raw \<le> 500 then Math_round (of_int raw / 50) * 50
      else Math_round (of_int raw / 100) * 100)"

text \<open>
  The bucket rule in the words of the specification, to be compared with the function
  above: round-half-up is written with the fractional part, the buckets with both of
  their ends, and the rule says nothing below zero.
\<close>

definition round_half_up :: "real \<Rightarrow> int" where
  "round_half_up x = (if frac x < 1 / 2 then \<lfloor>x\<rfloor> else \<lfloor>x\<rfloor> + 1)"

definition approximate_spec :: "int \<Rightarrow> int option" where
  "approximate_spec raw =
     (if raw = 0 then Some 0
      else if 1 \<le> raw \<and> raw \<le> 10 then Some 10
      else if 11 \<le> raw \<and> raw \<le> 50 then Some (round_half_up (of_int raw / 10) * 10)
      else if 51 \<le> raw \<and> raw \<le> 200 then Some (round_half_up (of_int raw / 25) * 25)
      else if 201 \<le> raw \<and> raw \<le> 500 then Some (round_half_up (of_int raw / 50) * 50)
      else if 500 < raw then Some (round_half_up (of_int raw / 100) * 100)
      else None)"

definition bucket_granularity :: "int \<Rightarrow> int" where
  \<comment> \<open>The granularity the specification gives each bucket.\<close>
  "bucket_granularity raw =
     (if raw \<le> 50 then 10 else if raw \<le> 200 then 25 else if raw \<le> 500 then 50 else 100)"

definition bucket :: "int \<Rightarrow> nat" where
  \<comment> \<open>The number of the branch of \<open>approximateCount\<close> that a count takes.\<close>
  "bucket raw =
     (if raw \<le> 0 then 0 else if raw \<le> 10 then 1 else if raw \<le> 50 then 2
      else if raw \<le> 200 then 3 else if raw \<le> 500 then 4 else 5)"

section \<open>SyncEngine: \<open>lib/syncEngine.ts\<close>\<close>

text \<open>
  Of the columns of a \<open>Slang\<close> row the engine reads \<open>repeat_count\<close> and \<open>seconds_per\<close>;
  the identifier and the text stand for the rest of the row, which it only passes on.
\<close>

record Slang =
  slang_id :: string
  slang_text :: string
  repeat_count :: int
  seconds_per :: int

text \<open>
  \<open>slang\<close> is typed \<open>Slang\<close> but tested with \<open>!slang\<close>, so it may be absent at run time;
  \<open>receivedAt\<close> is an optional number. The two interfaces share field names: those of
  the response are written with the record's name, and a local variable that the source
  names after a field carries a prime.
\<close>

record ServerSlangResponse =
  slang :: "Slang option"
  currentRepeat :: int
  secondsRemaining :: int
  totalDuration :: int
  elapsedInSlang :: int
  startedAt :: string
  receivedAt :: "int option"

record CurrentSlangState =
  slang :: Slang
  currentRepeat :: int
  secondsRemaining :: int
  totalDuration :: int
  elapsedInSlang :: int

text \<open>
  What \<open>calculateLocalState\<close> returns: \<open>null\<close>, a state, or a state object in which some
  number is \<open>NaN\<close> or infinite. The last happens when the start time does not parse or
  \<open>seconds_per\<close> is zero; the integer model does not represent such numbers and records
  only that the object returned is of that kind (it is not \<open>null\<close>).
\<close>

datatype 'a js_result = Null | Value 'a | NonFinite

definition truthy :: "int option \<Rightarrow> bool" where
  \<comment> \<open>\<open>if (x)\<close> on an optional number: \<open>undefined\<close> and \<open>0\<close> are both falsy.\<close>
  "truthy x = (case x of None \<Rightarrow> False | Some n \<Rightarrow> n \<noteq> 0)"

fun replace_first :: "char \<Rightarrow> char \<Rightarrow> string \<Rightarrow> string" where
  \<comment> \<open>\<open>s.replace(a, b)\<close> with one-character strings: only the first occurrence.\<close>
  "replace_first a b [] = []"
| "replace_first a b (c # cs) = (if c = a then b # cs else c # replace_first a b cs)"

definition endsWith :: "string \<Rightarrow> string \<Rightarrow> bool" where
  "endsWith s suf = (length suf \<le> length s \<and> drop (length s - length suf) s = suf)"

text \<open>
  \<open>new Date(s).getTime()\<close> belongs to the JavaScript runtime, and which strings it
  accepts beyond the ISO format is left to the engine: it is a parameter \<open>getTime\<close> of
  the two functions, giving the milliseconds since the epoch or \<open>None\<close> for \<open>NaN\<close> (an
  invalid date). Every comparison with \<open>NaN\<close> is false.
\<close>

definition calculateLocalState ::
  "(string \<Rightarrow> int option) \<Rightarrow> ServerSlangResponse \<Rightarrow> int \<Rightarrow> CurrentSlangState js_result" where
  "calculateLocalState getTime serverResponse now =
     (case ServerSlangResponse.slang serverResponse of
        None \<Rightarrow> Null
      | Some slang' \<Rightarrow>
          let totalDuration' = ServerSlangResponse.totalDuration serverResponse;
              elapsedInSlang' = ServerSlangResponse.elapsedInSlang serverResponse;
              receivedAt' = receivedAt serverResponse;
              elapsed =
                (if truthy receivedAt' then
                   let timeSinceReceived = now - the receivedAt'
                   in Some (elapsedInSlang' + timeSinceReceived)
                 else
                   let normalizedTimestamp = replace_first CHR '' '' CHR ''T'' (startedAt serverResponse);
                       normalizedTimestamp =
                         (if endsWith normalizedTimestamp ''+00''
                          then normalizedTimestamp @ '':00'' else normalizedTimestamp)
                   in (case getTime normalizedTimestamp of
                         None \<Rightarrow> None
                       | Some startTime \<Rightarrow> Some (now - startTime)))
          in (case elapsed of
                None \<Rightarrow> NonFinite
              | Some elapsed \<Rightarrow>
                  if elapsed \<ge> totalDuration' then Null
                  else
                    let secondsPerMs = seconds_per slang' * 1000
                    in if secondsPerMs = 0 then NonFinite
                       else
                         let repeatIndex = Math_floor (of_int elapsed / of_int secondsPerMs);
                             currentRepeat' = repeat_count slang' - repeatIndex;
                             positionInRepeat = js_rem elapsed secondsPerMs;
                             msRemaining = secondsPerMs - positionInRepeat;
                             secondsRemaining' = Math_ceil (of_int msRemaining / 1000)
                         in Value \<lparr>slang = slang',
                              currentRepeat = max 1 currentRepeat',
                              secondsRemaining = min secondsRemaining' (seconds_per slang'),
                              totalDuration = totalDuration',
                              elapsedInSlang = elapsed\<rparr>))"

definition isSlangExpired :: "(string \<Rightarrow> int option) \<Rightarrow> ServerSlangResponse \<Rightarrow> int \<Rightarrow> bool" where
  "isSlangExpired getTime serverResponse now =
     (let elapsedInSlang' = ServerSlangResponse.elapsedInSlang serverResponse;
          receivedAt' = receivedAt serverResponse;
          totalDuration' = ServerSlangResponse.totalDuration serverResponse;
          elapsed =
            (if truthy receivedAt' then
               let timeSinceReceived = now - the receivedAt'
               in Some (elapsedInSlang' + timeSinceReceived)
             else
               let normalizedTimestamp = replace_first CHR '' '' CHR ''T'' (startedAt serverResponse);
                   normalizedTimestamp =
                     (if endsWith normalizedTimestamp ''+00''
                      then normalizedTimestamp @ '':00'' else normalizedTimestamp)
               in (case getTime normalizedTimestamp of
                     None \<Rightarrow> None
                   | Some startTime \<Rightarrow> Some (now - startTime)))
      in (case elapsed of None \<Rightarrow> False | Some elapsed \<Rightarrow> elapsed \<ge> totalDuration'))"

text \<open>
  Two names for the parts of the body of \<open>calculateLocalState\<close>, used in the proofs only:
  the elapsed time (lines 37 to 50 of the source, repeated in \<open>isSlangExpired\<close>) and the
  state derived from it (lines 52 to 75).
\<close>

definition elapsed_time :: "(string \<Rightarrow> int option) \<Rightarrow> ServerSlangResponse \<Rightarrow> int \<Rightarrow> int option" where
  "elapsed_time getTime serverResponse now =
     (if truthy (receivedAt serverResponse)
      then Some (ServerSlangResponse.elapsedInSlang serverResponse
             + (now - the (receivedAt serverResponse)))
      else
        let normalizedTimestamp = replace_first CHR '' '' CHR ''T'' (startedAt serverResponse);
            normalizedTimestamp =
              (if endsWith normalizedTimestamp ''+00''
               then normalizedTimestamp @ '':00'' else normalizedTimestamp)
        in (case getTime normalizedTimestamp of
              None \<Rightarrow> None
            | Some startTime \<Rightarrow> Some (now - startTime)))"

definition derive_state :: "Slang \<Rightarrow> int \<Rightarrow> int \<Rightarrow> CurrentSlangState js_result" where
  "derive_state s duration elapsed =
     (if elapsed \<ge> duration then Null
      else if seconds_per s * 1000 = 0 then NonFinite
      else Value \<lparr>slang = s,
             currentRepeat = max 1 (repeat_count s - elapsed div (seconds_per s * 1000)),
             secondsRemaining =
               min (- ((- (seconds_per s * 1000 - js_rem elapsed (seconds_per s * 1000))) div 1000))
                 (seconds_per s),
             totalDuration = duration,
             elapsedInSlang = elapsed\<rparr>)"

text \<open>
  The snapshot of the specification's example: three repeats of five seconds, nothing
  elapsed at the server, received at local time \<open>T0\<close>.
\<close>

definition example_slang :: Slang where
  "example_slang = \<lparr>slang_id = ''s1'', slang_text = ''text'', repeat_count = 3, seconds_per = 5\<rparr>"

definition example_response :: "int \<Rightarrow> ServerSlangResponse" where
  "example_response T0 =
     \<lparr>ServerSlangResponse.slang = Some example_slang,
      ServerSlangResponse.currentRepeat = 3, ServerSlangResponse.secondsRemaining = 5,
      ServerSlangResponse.totalDuration = 15000, ServerSlangResponse.elapsedInSlang = 0,
      startedAt = ''2024-01-15 12:00:00+00'', receivedAt = Some T0\<rparr>"

text \<open>A date parser that knows one instant, the epoch in the ISO format.\<close>

definition getTime_epoch :: "string \<Rightarrow> int option" where
  "getTime_epoch s = (if s = ''1970-01-01T00:00:00Z'' then Some 0 else None)"

text \<open>
  A response stamped with the local time 0, one second into its slang at the server,
  which started at the epoch.
\<close>

definition zero_received_response :: ServerSlangResponse where
  "zero_received_response =
     \<lparr>ServerSlangResponse.slang = Some example_slang,
      ServerSlangResponse.currentRepeat = 3, ServerSlangResponse.secondsRemaining = 4,
      ServerSlangResponse.totalDuration = 15000, ServerSlangResponse.elapsedInSlang = 1000,
      startedAt = ''1970-01-01T00:00:00Z'', receivedAt = Some 0\<rparr>"

section \<open>VoteAggregator: \<open>hooks/useSloganVote.ts\<close>\<close>

record VoteInfo =
  score :: int
  likes :: int
  dislikes :: int
  userVote :: "int option"  \<comment> \<open>\<open>+1\<close>, \<open>-1\<close> or \<open>null\<close>\<close>

type_synonym votes = "string \<rightharpoonup> VoteInfo"

text \<open>
  What \<open>supabase.rpc('submit_vote', ...)\<close> can do: the promise rejects (a network
  exception), or it resolves to a pair of \<open>data\<close> and \<open>error\<close>, either of which may be
  \<open>null\<close>.
\<close>

datatype rpc_outcome = Rejected | Resolved "string option" "string option"

text \<open>
  The effects of one call of \<open>vote\<close>, in the order in which they happen:
  \<open>SetVotes k v\<close> is \<open>setVotes(prev => new Map(prev).set(k, v))\<close>, and
  \<open>SubmitVote slang voter v\<close> is the remote call with \<open>p_slang_id\<close>, \<open>p_voter_id\<close> and
  \<open>p_vote\<close>.
\<close>

datatype vote_effect = SetVotes string VoteInfo | SubmitVote string string int

fun apply_effect :: "votes \<Rightarrow> vote_effect \<Rightarrow> votes" where
  "apply_effect prev (SetVotes k v) = prev(k \<mapsto> v)"
| "apply_effect prev (SubmitVote _ _ _) = prev"

definition falsy_string :: "string option \<Rightarrow> bool" where
  \<comment> \<open>\<open>!voterId\<close> on \<open>string | null\<close>: \<open>null\<close> and the empty string.\<close>
  "falsy_string x = (case x of None \<Rightarrow> True | Some s \<Rightarrow> s = [])"

text \<open>
  \<open>vote\<close> reads the voter id from a ref and the tallies from \<open>votes\<close>, the map its closure
  captured; \<open>val\<close> is the source's parameter \<open>value\<close>, and \<open>outcome\<close> is what the remote call
  does, if it is made.
\<close>

definition vote :: "string option \<Rightarrow> votes \<Rightarrow> string \<Rightarrow> int \<Rightarrow> rpc_outcome \<Rightarrow> vote_effect list" where
  "vote voterId votes slangId val outcome =
     (if falsy_string voterId then []
      else
        let current = votes slangId;
            currentUserVote = (case current of None \<Rightarrow> None | Some c \<Rightarrow> userVote c);
            currentScore = (case current of None \<Rightarrow> 0 | Some c \<Rightarrow> score c);
            currentLikes = (case current of None \<Rightarrow> 0 | Some c \<Rightarrow> likes c);
            currentDislikes = (case current of None \<Rightarrow> 0 | Some c \<Rightarrow> dislikes c);
            isToggle = (currentUserVote = Some val);
            newUserVote = (if isToggle then None else Some val);
            scoreDelta =
              (if isToggle then - val
               else (case currentUserVote of Some v \<Rightarrow> val - v | None \<Rightarrow> val));
            likesDelta =
              (if isToggle then (if val = 1 then - 1 else 0)
               else (if val = 1 then 1 else if currentUserVote = Some 1 then - 1 else 0));
            dislikesDelta =
              (if isToggle then (if val = 1 then 0 else - 1)
               else (if val = 1 then (if currentUserVote = Some (- 1) then - 1 else 0) else 1));
            optimistic =
              SetVotes slangId
                \<lparr>score = currentScore + scoreDelta,
                 likes = currentLikes + likesDelta,
                 dislikes = currentDislikes + dislikesDelta,
                 userVote = newUserVote\<rparr>;
            submit = SubmitVote slangId (the voterId) (if isToggle then 0 else val);
            rollback =
              SetVotes slangId
                \<lparr>score = currentScore, likes = currentLikes, dislikes = currentDislikes,
                 userVote = currentUserVote\<rparr>
        in [optimistic, submit] @
           (case outcome of
              Rejected \<Rightarrow> [rollback]
            | Resolved result error \<Rightarrow>
                if error \<noteq> None then [rollback]
                else if result = Some ''rate_limited'' then [rollback]
                else []))"

text \<open>
  The tally of the specification and its toggle rule, in the specification's words:
  \<open>userVote\<close> is one of \<open>-1\<close>, \<open>0\<close>, \<open>+1\<close>, with \<open>0\<close> for no vote; the bucket of \<open>+1\<close> is
  \<open>likes\<close> and that of \<open>-1\<close> is \<open>dislikes\<close>.
\<close>

record VoteTally =
  tally_likes :: int
  tally_dislikes :: int
  tally_userVote :: int

definition add_to_bucket :: "int \<Rightarrow> int \<Rightarrow> VoteTally \<Rightarrow> VoteTally" where
  "add_to_bucket direction k t =
     (if direction = 1 then t\<lparr>tally_likes := tally_likes t + k\<rparr>
      else if direction = - 1 then t\<lparr>tally_dislikes := tally_dislikes t + k\<rparr>
      else t)"

definition toggle_spec :: "VoteTally \<Rightarrow> int \<Rightarrow> VoteTally" where
  "toggle_spec t direction =
     (let current = tally_userVote t
      in if direction = current
         then (add_to_bucket current (- 1) t)\<lparr>tally_userVote := 0\<rparr>
         else if current = 0
         then (add_to_bucket direction 1 t)\<lparr>tally_userVote := direction\<rparr>
         else (add_to_bucket direction 1 (add_to_bucket current (- 1) t))
                \<lparr>tally_userVote := direction\<rparr>)"

text \<open>
  The tally that an entry of the map stands for: a missing entry counts as zeros, and
  \<open>null\<close> is the specification's \<open>0\<close>.
\<close>

definition tally_of :: "VoteInfo option \<Rightarrow> VoteTally" where
  "tally_of current =
     \<lparr>tally_likes = (case current of None \<Rightarrow> 0 | Some c \<Rightarrow> likes c),
      tally_dislikes = (case current of None \<Rightarrow> 0 | Some c \<Rightarrow> dislikes c),
      tally_userVote =
        (case current of None \<Rightarrow> 0 | Some c \<Rightarrow> (case userVote c of None \<Rightarrow> 0 | Some v \<Rightarrow> v))\<rparr>"

definition captured :: "votes \<Rightarrow> string \<Rightarrow> VoteInfo" where
  \<comment> \<open>The four values \<open>vote\<close> captures before the optimistic update.\<close>
  "captured votes slangId =
     \<lparr>score = (case votes slangId of None \<Rightarrow> 0 | Some c \<Rightarrow> score c),
      likes = (case votes slangId of None \<Rightarrow> 0 | Some c \<Rightarrow> likes c),
      dislikes = (case votes slangId of None \<Rightarrow> 0 | Some c \<Rightarrow> dislikes c),
      userVote = (case votes slangId of None \<Rightarrow> None | Some c \<Rightarrow> userVote c)\<rparr>"

definition rejected :: "rpc_outcome \<Rightarrow> bool" where
  \<comment> \<open>The remote call throws, reports an error, or answers \<open>rate_limited\<close>.\<close>
  "rejected outcome =
     (case outcome of
        Rejected \<Rightarrow> True
      | Resolved result error \<Rightarrow> error \<noteq> None \<or> result = Some ''rate_limited'')"

section \<open>LocationResolver: \<open>lib/ipGeolocate.ts\<close>\<close>

subsection \<open>JavaScript values read from a response\<close>

text \<open>
  A coordinate is a JavaScript number: a real, \<open>NaN\<close> or an infinity. A property of a
  parsed JSON body is absent (\<open>undefined\<close>), \<open>null\<close>, a boolean, a number, a string, or an
  array or object; of the last only the string that its conversion to a primitive
  yields matters here, and \<open>JCompound\<close> carries it.
\<close>

datatype number = NaN | Num real | PosInfinity | NegInfinity

datatype json = JUndefined | JNull | JBool bool | JNumber number | JString string | JCompound string

text \<open>
  \<open>Number(v)\<close>. The conversion of a string to a number belongs to the language, with a
  grammar of its own (white space, signs, exponents, hexadecimal, \<open>Infinity\<close>): it is the
  parameter \<open>str2num\<close> of every function that converts.
\<close>

fun ToNumber :: "(string \<Rightarrow> number) \<Rightarrow> json \<Rightarrow> number" where
  "ToNumber str2num JUndefined = NaN"
| "ToNumber str2num JNull = Num 0"
| "ToNumber str2num (JBool b) = Num (if b then 1 else 0)"
| "ToNumber str2num (JNumber n) = n"
| "ToNumber str2num (JString s) = str2num s"
| "ToNumber str2num (JCompound s) = str2num s"

definition isNaN :: "number \<Rightarrow> bool" where
  "isNaN n = (n = NaN)"

fun truthy_json :: "json \<Rightarrow> bool" where
  "truthy_json JUndefined = False"
| "truthy_json JNull = False"
| "truthy_json (JBool b) = b"
| "truthy_json (JNumber n) = (n \<noteq> NaN \<and> n \<noteq> Num 0)"
| "truthy_json (JString s) = (s \<noteq> [])"
| "truthy_json (JCompound s) = True"

definition falsy_number :: "number \<Rightarrow> bool" where
  \<comment> \<open>\<open>!n\<close> on a number\<close>
  "falsy_number n = (n = Num 0 \<or> n = NaN)"

definition or_null :: "json \<Rightarrow> json" where
  \<comment> \<open>\<open>v || null\<close>\<close>
  "or_null v = (if truthy_json v then v else JNull)"

fun split :: "char \<Rightarrow> string \<Rightarrow> string list" where
  \<comment> \<open>\<open>s.split(c)\<close> with a one-character separator.\<close>
  "split c [] = [[]]"
| "split c (x # xs) =
     (if x = c then [] # split c xs
      else (case split c xs of [] \<Rightarrow> [[x]] | p # ps \<Rightarrow> (x # p) # ps))"

text \<open>
  A conversion for the examples: it knows a decimal numeral with an optional sign and an
  optional fraction, gives 0 for the empty string and \<open>NaN\<close> for every other string. The
  theorems below hold for every conversion.
\<close>

definition digit_value :: "char \<Rightarrow> nat" where
  "digit_value c = of_char c - 48"

definition is_digit :: "char \<Rightarrow> bool" where
  "is_digit c = (48 \<le> (of_char c :: nat) \<and> (of_char c :: nat) \<le> 57)"

definition digits_value :: "string \<Rightarrow> nat" where
  "digits_value ds = foldl (\<lambda>acc c. 10 * acc + digit_value c) 0 ds"

definition unsigned_decimal :: "string \<Rightarrow> real option" where
  "unsigned_decimal s =
     (let whole = takeWhile is_digit s; rest = dropWhile is_digit s
      in if rest = [] then (if whole = [] then None else Some (real (digits_value whole)))
         else if hd rest = CHR ''.'' \<and> list_all is_digit (tl rest) \<and> (whole \<noteq> [] \<or> tl rest \<noteq> [])
         then Some (real (digits_value whole)
                + real (digits_value (tl rest)) / 10 ^ length (tl rest))
         else None)"

definition decimal_str2num :: "string \<Rightarrow> number" where
  "decimal_str2num s =
     (case s of
        [] \<Rightarrow> Num 0
      | c # cs \<Rightarrow>
          if c = CHR ''-'' then (case unsigned_decimal cs of None \<Rightarrow> NaN | Some x \<Rightarrow> Num (- x))
          else if c = CHR ''+'' then (case unsigned_decimal cs of None \<Rightarrow> NaN | Some x \<Rightarrow> Num x)
          else (case unsigned_decimal s of None \<Rightarrow> NaN | Some x \<Rightarrow> Num x))"

subsection \<open>The adapters\<close>

record IPGeoResult =
  lat :: number
  lng :: number
  city :: json  \<comment> \<open>typed \<open>string | null\<close>: whatever truthy value the body held, or \<open>null\<close>\<close>

text \<open>
  A body \<open>d\<close> is read through its properties: \<open>d p\<close> is the value of \<open>d.p\<close>, \<open>JUndefined\<close>
  when the property is missing.
\<close>

type_synonym body = "string \<Rightarrow> json"

record EndpointConfig =
  url :: string
  parse :: "(string \<Rightarrow> number) \<Rightarrow> body \<Rightarrow> IPGeoResult option"

definition parse_geojs :: "(string \<Rightarrow> number) \<Rightarrow> body \<Rightarrow> IPGeoResult option" where
  "parse_geojs str2num d =
     (let lat' = ToNumber str2num (d ''latitude'');
          lng' = ToNumber str2num (d ''longitude'')
      in if isNaN lat' \<or> isNaN lng' \<or> lat' = Num 0 then None
         else Some \<lparr>lat = lat', lng = lng', city = or_null (d ''city'')\<rparr>)"

definition parse_freeipapi :: "(string \<Rightarrow> number) \<Rightarrow> body \<Rightarrow> IPGeoResult option" where
  "parse_freeipapi str2num d =
     (let lat' = ToNumber str2num (d ''latitude'');
          lng' = ToNumber str2num (d ''longitude'')
      in if isNaN lat' \<or> isNaN lng' \<or> lat' = Num 0 then None
         else Some \<lparr>lat = lat', lng = lng', city = or_null (d ''cityName'')\<rparr>)"

definition parse_ipwhois_app :: "(string \<Rightarrow> number) \<Rightarrow> body \<Rightarrow> IPGeoResult option" where
  "parse_ipwhois_app str2num d =
     (let lat' = ToNumber str2num (d ''latitude'');
          lng' = ToNumber str2num (d ''longitude'')
      in if isNaN lat' \<or> isNaN lng' \<or> lat' = Num 0 then None
         else Some \<lparr>lat = lat', lng = lng', city = or_null (d ''city'')\<rparr>)"

definition parse_ipwho_is :: "(string \<Rightarrow> number) \<Rightarrow> body \<Rightarrow> IPGeoResult option" where
  "parse_ipwho_is str2num d =
     (let lat' = ToNumber str2num (d ''latitude'');
          lng' = ToNumber str2num (d ''longitude'')
      in if isNaN lat' \<or> isNaN lng' \<or> lat' = Num 0 then None
         else Some \<lparr>lat = lat', lng = lng', city = or_null (d ''city'')\<rparr>)"

definition parse_ipinfo :: "(string \<Rightarrow> number) \<Rightarrow> body \<Rightarrow> IPGeoResult option" where
  "parse_ipinfo str2num d =
     (case d ''loc'' of
        JString loc \<Rightarrow>
          if CHR '','' \<in> set loc then
            (case split CHR '','' loc of
               la # lo # _ \<Rightarrow>
                 let lat' = ToNumber str2num (JString la);
                     lng' = ToNumber str2num (JString lo)
                 in if isNaN lat' \<or> isNaN lng' \<or> lat' = Num 0 then None
                    else Some \<lparr>lat = lat', lng = lng', city = or_null (d ''city'')\<rparr>
             | _ \<Rightarrow> None)
          else None
      | _ \<Rightarrow> None)"

definition fallbackEndpoints :: "EndpointConfig list" where
  "fallbackEndpoints =
     [\<lparr>url = ''https://get.geojs.io/v1/ip/geo.json'', parse = parse_geojs\<rparr>,
      \<lparr>url = ''https://freeipapi.com/api/json'', parse = parse_freeipapi\<rparr>,
      \<lparr>url = ''https://ipwhois.app/json/'', parse = parse_ipwhois_app\<rparr>,
      \<lparr>url = ''https://ipwho.is/'', parse = parse_ipwho_is\<rparr>,
      \<lparr>url = ''https://ipinfo.io/json'', parse = parse_ipinfo\<rparr>]"

subsection \<open>The lookups\<close>

text \<open>
  What a \<open>fetch\<close> followed by \<open>res.json()\<close> can give: the request fails (a network
  error, or the abort at the time-out), or a response arrives with its \<open>ok\<close> flag and a
  body, which is not JSON, or is \<open>null\<close> (reading a property of it throws), or is any other
  value.
\<close>

datatype http_body = InvalidJson | BodyNull | Body body

datatype http_response = NetworkError | Response bool http_body

definition VERCEL_TIMEOUT_MS :: int where
  "VERCEL_TIMEOUT_MS = 3000"

definition FALLBACK_TIMEOUT_MS :: int where
  "FALLBACK_TIMEOUT_MS = 6000"

definition CACHE_MAX_AGE_MS :: int where
  "CACHE_MAX_AGE_MS = 5 * 60 * 1000"

definition fetchVercelGeo :: "(string \<Rightarrow> number) \<Rightarrow> http_response \<Rightarrow> IPGeoResult option" where
  "fetchVercelGeo str2num res =
     (case res of
        NetworkError \<Rightarrow> None
      | Response ok b \<Rightarrow>
          if \<not> ok then None
          else (case b of
                  InvalidJson \<Rightarrow> None
                | BodyNull \<Rightarrow> None
                | Body d \<Rightarrow>
                    let lat' = ToNumber str2num (d ''lat'');
                        lng' = ToNumber str2num (d ''lng'')
                    in if isNaN lat' \<or> isNaN lng' \<or> falsy_number lat' then None
                       else Some \<lparr>lat = lat', lng = lng', city = or_null (d ''city'')\<rparr>))"

text \<open>
  One attempt of the race: the endpoint's index in \<open>fallbackEndpoints\<close> and what its
  request gives. The attempt fulfils with the parsed result, or rejects (\<open>None\<close>).
\<close>

definition endpoint_attempt :: "(string \<Rightarrow> number) \<Rightarrow> nat \<times> http_response \<Rightarrow> IPGeoResult option" where
  "endpoint_attempt str2num attempt =
     (case attempt of (i, response) \<Rightarrow>
        if i < length fallbackEndpoints then
          (case response of
             NetworkError \<Rightarrow> None
           | Response ok b \<Rightarrow>
               if \<not> ok then None
               else (case b of
                       InvalidJson \<Rightarrow> None
                     | BodyNull \<Rightarrow> None
                     | Body data \<Rightarrow> parse (fallbackEndpoints ! i) str2num data))
        else None)"

text \<open>
  \<open>Promise.any\<close> fulfils with the first attempt that fulfils and rejects when all have
  rejected. The attempts are given in the order in which they settle; an endpoint that
  has not settled at the time-out is aborted and rejects, and is left out of the list.
\<close>

fun first_fulfilled :: "(string \<Rightarrow> number) \<Rightarrow> (nat \<times> http_response) list \<Rightarrow> IPGeoResult option" where
  "first_fulfilled str2num [] = None"
| "first_fulfilled str2num (a # as) =
     (case endpoint_attempt str2num a of
        Some parsed \<Rightarrow> Some parsed
      | None \<Rightarrow> first_fulfilled str2num as)"

definition fetchExternalGeo :: "(string \<Rightarrow> number) \<Rightarrow> (nat \<times> http_response) list \<Rightarrow> IPGeoResult option" where
  "fetchExternalGeo str2num settled = first_fulfilled str2num settled"

record geo_env =
  vercel :: http_response
  external :: "(nat \<times> http_response) list"

definition fetchGeo :: "(string \<Rightarrow> number) \<Rightarrow> geo_env \<Rightarrow> IPGeoResult option" where
  "fetchGeo str2num env =
     (case fetchVercelGeo str2num (vercel env) of
        Some vercelResult \<Rightarrow> Some vercelResult
      | None \<Rightarrow> fetchExternalGeo str2num (external env))"

text \<open>
  The module's variables. A request in flight is the promise \<open>fetchGeo().then(...)\<close>; it
  is represented by what the network will answer to it, which fixes its result.
\<close>

record geo_state =
  cachedResult :: "IPGeoResult option"
  cachedAt :: int
  inflight :: "geo_env option"

text \<open>
  The promise that \<open>ipGeolocate\<close> returns: already resolved with the cached result, or
  the request in flight.
\<close>

datatype geo_promise = FromCache IPGeoResult | InFlight geo_env

definition ipGeolocate :: "geo_state \<Rightarrow> int \<Rightarrow> geo_env \<Rightarrow> geo_promise \<times> geo_state" where
  \<comment> \<open>\<open>now\<close> is \<open>Date.now()\<close> at the call; \<open>env\<close> is what the network answers if a request is started.\<close>
  "ipGeolocate st now env =
     (if cachedResult st \<noteq> None \<and> now - cachedAt st < CACHE_MAX_AGE_MS
      then (FromCache (the (cachedResult st)), st)
      else (case inflight st of
              Some pending \<Rightarrow> (InFlight pending, st)
            | None \<Rightarrow> (InFlight env, st\<lparr>inflight := Some env\<rparr>)))"

definition resolves_to :: "(string \<Rightarrow> number) \<Rightarrow> geo_promise \<Rightarrow> IPGeoResult option" where
  \<comment> \<open>The value a caller gets from \<open>await ipGeolocate()\<close>; \<open>None\<close> is \<open>null\<close>.\<close>
  "resolves_to str2num p =
     (case p of FromCache cached \<Rightarrow> Some cached | InFlight env \<Rightarrow> fetchGeo str2num env)"

definition inflight_settles :: "(string \<Rightarrow> number) \<Rightarrow> geo_state \<Rightarrow> int \<Rightarrow> geo_state" where
  \<comment> \<open>The \<open>then\<close> callback of the request in flight, run at time \<open>now\<close>.\<close>
  "inflight_settles str2num st now =
     (case inflight st of
        None \<Rightarrow> st
      | Some env \<Rightarrow>
          (case fetchGeo str2num env of
             Some result \<Rightarrow> st\<lparr>cachedResult := Some result, cachedAt := now, inflight := None\<rparr>
           | None \<Rightarrow> st\<lparr>inflight := None\<rparr>))"

definition fresh :: "geo_state \<Rightarrow> int \<Rightarrow> bool" where
  \<comment> \<open>A cached result exists and is younger than five minutes.\<close>
  "fresh st now = (cachedResult st \<noteq> None \<and> now - cachedAt st < CACHE_MAX_AGE_MS)"

definition awaited :: "geo_state \<Rightarrow> geo_env \<Rightarrow> geo_env" where
  \<comment> \<open>The request whose result a call waits for: the one in flight, or else its own.\<close>
  "awaited st env = (case inflight st of Some pending \<Rightarrow> pending | None \<Rightarrow> env)"

definition all_fail :: "(string \<Rightarrow> number) \<Rightarrow> geo_env \<Rightarrow> bool" where
  \<comment> \<open>The first-party lookup and every third-party attempt of a request fail.\<close>
  "all_fail str2num env =
     (fetchVercelGeo str2num (vercel env) = None
      \<and> list_all (\<lambda>a. endpoint_attempt str2num a = None) (external env))"

text \<open>Values for the examples.\<close>

definition tehran :: IPGeoResult where
  "tehran = \<lparr>lat = Num (357 / 10), lng = Num (514 / 10), city = JString ''Tehran''\<rparr>"

definition offline :: geo_env where
  "offline =
     \<lparr>vercel = NetworkError,
      external = [(0, NetworkError), (1, NetworkError), (2, NetworkError), (3, NetworkError),
        (4, NetworkError)]\<rparr>"

definition cached_state :: geo_state where
  "cached_state = \<lparr>cachedResult = Some tehran, cachedAt = 0, inflight = None\<rparr>"

definition greenwich_body :: body where
  \<comment> \<open>\<open>{"latitude": 51.5, "longitude": 0, "city": "London"}\<close>\<close>
  "greenwich_body p =
     (if p = ''latitude'' then JNumber (Num (515 / 10))
      else if p = ''longitude'' then JNumber (Num 0)
      else if p = ''city'' then JString ''London''
      else JUndefined)"

definition null_longitude_body :: body where
  \<comment> \<open>\<open>{"latitude": true, "longitude": null}\<close>\<close>
  "null_longitude_body p =
     (if p = ''latitude'' then JBool True
      else if p = ''longitude'' then JNull
      else JUndefined)"

definition zero_latitude_loc :: body where
  \<comment> \<open>\<open>{"loc": "0,51.4", "city": "Accra"}\<close>\<close>
  "zero_latitude_loc p =
     (if p = ''loc'' then JString ''0,51.4''
      else if p = ''city'' then JString ''Accra''
      else JUndefined)"

section \<open>PresenceHeartbeat: \<open>lib/serverCrowdCounter.ts\<close>\<close>

definition COORDS_MAX_AGE_MS :: int where
  "COORDS_MAX_AGE_MS = 5 * 60 * 1000"

record Coords =
  lat :: number
  lng :: number

text \<open>
  The field \<open>approximateCount\<close> of the state is written \<open>approximate_count\<close> here, the name
  being that of the function.
\<close>

record ServerCrowdState =
  nearbyCount :: int
  approximate_count :: int
  isActive :: bool
  locationServicesOff :: bool
  error :: "string option"

text \<open>
  The fields of the counter that a heartbeat reads or writes. The listeners are
  represented by \<open>notified\<close>, the states they have been called with, oldest first.
\<close>

record ServerCrowdCounter =
  deviceHash :: "string option"
  cachedCoords :: "Coords option"
  cachedCoordsTime :: int
  state :: ServerCrowdState
  notified :: "ServerCrowdState list"

definition updateState :: "ServerCrowdCounter \<Rightarrow> (ServerCrowdState \<Rightarrow> ServerCrowdState) \<Rightarrow> ServerCrowdCounter" where
  \<comment> \<open>\<open>partial\<close> overwrites the fields it names; then \<open>notify()\<close>.\<close>
  "updateState this partial =
     (let merged = partial (state this)
      in this\<lparr>state := merged, notified := notified this @ [merged]\<rparr>)"

text \<open>
  An asynchronous method takes the state of the geolocation module beside the counter
  and returns both; \<open>now\<close> is \<open>Date.now()\<close> when it starts, \<open>later\<close> when the lookup it
  awaits has settled, and \<open>env\<close> is what the network answers to a lookup it starts.
\<close>

definition getCoordsFromIP ::
  "(string \<Rightarrow> number) \<Rightarrow> geo_state \<Rightarrow> int \<Rightarrow> geo_env \<Rightarrow> int \<Rightarrow> Coords option \<times> geo_state" where
  "getCoordsFromIP str2num geo now env later =
     (case ipGeolocate geo now env of (promise, geo') \<Rightarrow>
        let geo'' = (case promise of FromCache _ \<Rightarrow> geo' | InFlight _ \<Rightarrow> inflight_settles str2num geo' later)
        in (case resolves_to str2num promise of
              Some result \<Rightarrow> (Some \<lparr>lat = IPGeoResult.lat result, lng = IPGeoResult.lng result\<rparr>, geo'')
            | None \<Rightarrow> (None, geo'')))"

definition getCoords ::
  "(string \<Rightarrow> number) \<Rightarrow> ServerCrowdCounter \<Rightarrow> geo_state \<Rightarrow> int \<Rightarrow> geo_env \<Rightarrow> int
    \<Rightarrow> Coords option \<times> ServerCrowdCounter \<times> geo_state" where
  "getCoords str2num this geo now env later =
     (if cachedCoords this \<noteq> None \<and> now - cachedCoordsTime this < COORDS_MAX_AGE_MS
      then (cachedCoords this, this, geo)
      else
        (case getCoordsFromIP str2num geo now env later of (coords, geo') \<Rightarrow>
           let this' =
                 (case coords of
                    Some c \<Rightarrow> this\<lparr>cachedCoords := Some c, cachedCoordsTime := later\<rparr>
                  | None \<Rightarrow> this)
           in if coords = None \<and> cachedCoords this' \<noteq> None
              then (cachedCoords this', this', geo')
              else (coords, this', geo')))"

text \<open>
  What \<open>supabase.rpc('heartbeat_nearby', ...)\<close> can do: reject, or resolve to \<open>data\<close>, which
  is an integer count or not a number at all, and \<open>error\<close>.
\<close>

datatype heartbeat_data = Count int | NotANumber

datatype heartbeat_outcome = HeartbeatRejected | HeartbeatResolved heartbeat_data "string option"

definition sendHeartbeat ::
  "(string \<Rightarrow> number) \<Rightarrow> ServerCrowdCounter \<Rightarrow> geo_state \<Rightarrow> int \<Rightarrow> geo_env \<Rightarrow> int
    \<Rightarrow> heartbeat_outcome \<Rightarrow> bool \<times> ServerCrowdCounter \<times> geo_state" where
  "sendHeartbeat str2num this geo now env later outcome =
     (if falsy_string (deviceHash this) then (False, this, geo)
      else
        (case getCoords str2num this geo now env later of (coords, this', geo') \<Rightarrow>
           (case coords of
              None \<Rightarrow> (False, this', geo')
            | Some c \<Rightarrow>
                (case outcome of
                   HeartbeatRejected \<Rightarrow> (False, this', geo')
                 | HeartbeatResolved data error' \<Rightarrow>
                     if error' \<noteq> None then (False, this', geo')
                     else
                       let rawCount = (case data of Count n \<Rightarrow> n | NotANumber \<Rightarrow> 0)
                       in (True,
                           updateState this'
                             (\<lambda>s. s\<lparr>nearbyCount := rawCount,
                                   approximate_count := approximateCount rawCount,
                                   isActive := True,
                                   locationServicesOff := False,
                                   error := None\<rparr>),
                           geo')))))"

definition heartbeat_fails :: "heartbeat_outcome \<Rightarrow> bool" where
  \<comment> \<open>The remote call fails: a network exception, or an RPC error.\<close>
  "heartbeat_fails outcome =
     (case outcome of
        HeartbeatRejected \<Rightarrow> True
      | HeartbeatResolved data error' \<Rightarrow> error' \<noteq> None)"

text \<open>A counter that is active with nine devices nearby and holds fresh coordinates.\<close>

definition active_counter :: ServerCrowdCounter where
  "active_counter =
     \<lparr>deviceHash = Some ''0f3a'',
      cachedCoords = Some \<lparr>lat = Num (357 / 10), lng = Num (514 / 10)\<rparr>,
      cachedCoordsTime = 1000,
      state = \<lparr>nearbyCount = 9, approximate_count = 10, isActive = True,
        locationServicesOff = False, error = None\<rparr>,
      notified = []\<rparr>"

section \<open>Properties of the quantizer\<close>

lemma Math_round_div:
  assumes "0 < d"
  shows "Math_round (of_int raw / of_int d) = (2 * raw + d) div (2 * d)"
proof -
  have "(of_int raw / of_int d + 1 / 2 :: real) = of_int (2 * raw + d) / of_int (2 * d)"
    using assms by (simp add: field_simps)
  then show ?thesis
    unfolding Math_round_def by (simp only: floor_divide_of_int_eq)
qed

lemma round_half_up_eq: "round_half_up x = Math_round x"
proof -
  have fr: "x = of_int \<lfloor>x\<rfloor> + frac x" by (simp add: frac_def)
  have b: "0 \<le> frac x" "frac x < 1" by (simp_all add: frac_lt_1)
  show ?thesis
  proof (cases "frac x < 1 / 2")
    case True
    have "\<lfloor>x + 1 / 2\<rfloor> = \<lfloor>x\<rfloor>"
      by (rule floor_unique) (use True b fr in linarith)+
    with True show ?thesis by (simp add: round_half_up_def Math_round_def)
  next
    case False
    have "\<lfloor>x + 1 / 2\<rfloor> = \<lfloor>x\<rfloor> + 1"
      by (rule floor_unique) (use False b fr in \<open>simp; linarith\<close>)+
    with False show ?thesis by (simp add: round_half_up_def Math_round_def)
  qed
qed

lemma approximateCount_int:
  "approximateCount raw =
     (if raw \<le> 0 then 0
      else if raw \<le> 10 then 10
      else if raw \<le> 50 then (2 * raw + 10) div 20 * 10
      else if raw \<le> 200 then (2 * raw + 25) div 50 * 25
      else if raw \<le> 500 then (2 * raw + 50) div 100 * 50
      else (2 * raw + 100) div 200 * 100)"
  using Math_round_div [of 10 raw] Math_round_div [of 25 raw]
    Math_round_div [of 50 raw] Math_round_div [of 100 raw]
  by (simp add: approximateCount_def)

lemma div_between:
  fixes x :: int
  assumes "lo \<le> x" "x \<le> hi" "0 < d"
  shows "lo div d \<le> x div d \<and> x div d \<le> hi div d"
  using assms by (simp add: zdiv_mono1)

lemma bucket_bounds:
  fixes raw :: int
  shows "11 \<le> raw \<Longrightarrow> raw \<le> 50 \<Longrightarrow>
      10 \<le> (2 * raw + 10) div 20 * 10 \<and> (2 * raw + 10) div 20 * 10 \<le> 50"
    and "51 \<le> raw \<Longrightarrow> raw \<le> 200 \<Longrightarrow>
      50 \<le> (2 * raw + 25) div 50 * 25 \<and> (2 * raw + 25) div 50 * 25 \<le> 200"
    and "201 \<le> raw \<Longrightarrow> raw \<le> 500 \<Longrightarrow>
      200 \<le> (2 * raw + 50) div 100 * 50 \<and> (2 * raw + 50) div 100 * 50 \<le> 500"
    and "501 \<le> raw \<Longrightarrow> 500 \<le> (2 * raw + 100) div 200 * 100"
proof -
  show "10 \<le> (2 * raw + 10) div 20 * 10 \<and> (2 * raw + 10) div 20 * 10 \<le> 50"
    if "11 \<le> raw" "raw \<le> 50"
    using that div_between [of 32 "2 * raw + 10" 110 20] by simp
  show "50 \<le> (2 * raw + 25) div 50 * 25 \<and> (2 * raw + 25) div 50 * 25 \<le> 200"
    if "51 \<le> raw" "raw \<le> 200"
    using that div_between [of 127 "2 * raw + 25" 425 50] by simp
  show "200 \<le> (2 * raw + 50) div 100 * 50 \<and> (2 * raw + 50) div 100 * 50 \<le> 500"
    if "201 \<le> raw" "raw \<le> 500"
    using that div_between [of 452 "2 * raw + 50" 1050 100] by simp
  show "500 \<le> (2 * raw + 100) div 200 * 100" if "501 \<le> raw"
    using that zdiv_mono1 [of 1102 "2 * raw + 100" 200] by simp
qed

lemma bucket_mono:
  fixes a b d :: int
  assumes "a \<le> b" "0 < d"
  shows "(2 * a + d) div (2 * d) * d \<le> (2 * b + d) div (2 * d) * d"
proof -
  have "(2 * a + d) div (2 * d) \<le> (2 * b + d) div (2 * d)"
    using assms by (intro zdiv_mono1) simp_all
  with assms(2) show ?thesis by (simp add: mult_right_mono)
qed

lemma approximateCount_range:
  "bucket raw = 0 \<Longrightarrow> approximateCount raw = 0"
  "bucket raw = 1 \<Longrightarrow> approximateCount raw = 10"
  "bucket raw = 2 \<Longrightarrow> 10 \<le> approximateCount raw \<and> approximateCount raw \<le> 50"
  "bucket raw = 3 \<Longrightarrow> 50 \<le> approximateCount raw \<and> approximateCount raw \<le> 200"
  "bucket raw = 4 \<Longrightarrow> 200 \<le> approximateCount raw \<and> approximateCount raw \<le> 500"
  "bucket raw = 5 \<Longrightarrow> 500 \<le> approximateCount raw"
  using bucket_bounds [of raw]
  by (simp_all add: bucket_def approximateCount_int split: if_splits)

lemma approximateCount_formula:
  "bucket raw = 2 \<Longrightarrow> approximateCount raw = (2 * raw + 10) div 20 * 10"
  "bucket raw = 3 \<Longrightarrow> approximateCount raw = (2 * raw + 25) div 50 * 25"
  "bucket raw = 4 \<Longrightarrow> approximateCount raw = (2 * raw + 50) div 100 * 50"
  "bucket raw = 5 \<Longrightarrow> approximateCount raw = (2 * raw + 100) div 200 * 100"
  by (simp_all add: bucket_def approximateCount_int split: if_splits)

lemma bucket_le: "a \<le> b \<Longrightarrow> bucket a \<le> bucket b"
  by (simp add: bucket_def)

lemma bucket_range: "bucket raw \<in> {0, 1, 2, 3, 4, 5}"
  by (simp add: bucket_def)

lemma bucket_cases:
  obtains "bucket raw = 0" | "bucket raw = 1" | "bucket raw = 2" | "bucket raw = 3"
    | "bucket raw = 4" | "bucket raw = 5"
  using bucket_range [of raw] by auto

lemma approximateCount_same_bucket:
  assumes "a \<le> b" "bucket a = bucket b"
  shows "approximateCount a \<le> approximateCount b"
proof (cases a rule: bucket_cases)
  case 1
  with assms(2) show ?thesis by (simp add: approximateCount_range(1))
next
  case 2
  with assms(2) show ?thesis by (simp add: approximateCount_range(2))
next
  case 3
  with assms show ?thesis
    using bucket_mono [of a b 10] by (simp add: approximateCount_formula(1))
next
  case 4
  with assms show ?thesis
    using bucket_mono [of a b 25] by (simp add: approximateCount_formula(2))
next
  case 5
  with assms show ?thesis
    using bucket_mono [of a b 50] by (simp add: approximateCount_formula(3))
next
  case 6
  with assms show ?thesis
    using bucket_mono [of a b 100] by (simp add: approximateCount_formula(4))
qed

lemma approximateCount_mono:
  assumes "a \<le> b"
  shows "approximateCount a \<le> approximateCount b"
proof (cases "bucket a = bucket b")
  case True
  with assms show ?thesis by (rule approximateCount_same_bucket)
next
  case False
  with bucket_le [OF assms] have lt: "bucket a < bucket b" by simp
  show ?thesis
    using lt approximateCount_range [of a] approximateCount_range [of b]
    by (cases a rule: bucket_cases; cases b rule: bucket_cases) simp_all
qed

lemma approximateCount_dvd: "bucket_granularity raw dvd approximateCount raw"
  by (simp add: approximateCount_int bucket_granularity_def)

lemma approximate_spec_eq: "0 \<le> raw \<Longrightarrow> approximate_spec raw = Some (approximateCount raw)"
  by (auto simp add: approximate_spec_def approximateCount_def round_half_up_eq)

text \<open>
  Claim C1. For every non-negative integer count, \<open>approximateCount\<close> returns what the
  bucket rule of the specification gives, read in order with round-half-up: 0 for 0, 10
  for 1 to 10, the count rounded to a multiple of 10 up to 50, of 25 up to 200, of 50 up to
  500 and of 100 above. In particular 0, 7, 23, 47, 120, 430 and 650 give 0, 10, 20, 50,
  125, 450 and 700.
\<close>

theorem approximateCount_bucket_rule:
  "(0 \<le> raw \<longrightarrow> approximate_spec raw = Some (approximateCount raw))
    \<and> approximateCount 0 = 0 \<and> approximateCount 7 = 10 \<and> approximateCount 23 = 20
    \<and> approximateCount 47 = 50 \<and> approximateCount 120 = 125
    \<and> approximateCount 430 = 450 \<and> approximateCount 650 = 700"
  by (simp add: approximate_spec_eq) (simp add: approximateCount_int)

theorem approximateCount_bucket_rule_witness:
  "(0::int) \<le> 23 \<and> approximate_spec 23 = Some (approximateCount 23)
    \<and> approximateCount 23 = 20"
  using approximateCount_bucket_rule [of 23] by simp

text \<open>
  Claim C2. The approximate count never decreases when the raw count grows, and it is
  always a multiple of the granularity of the bucket the raw count falls in (10 up to 50,
  25 from 51 to 200, 50 from 201 to 500, 100 above 500).
\<close>

theorem approximateCount_monotone_granular:
  "(0 \<le> a \<and> a \<le> b \<longrightarrow> approximateCount a \<le> approximateCount b)
    \<and> (0 \<le> raw \<longrightarrow> bucket_granularity raw dvd approximateCount raw)"
  by (simp add: approximateCount_mono approximateCount_dvd)

theorem approximateCount_monotone_granular_witness:
  "(0::int) \<le> 50 \<and> (50::int) \<le> 51 \<and> approximateCount 50 \<le> approximateCount 51
    \<and> (0::int) \<le> 120 \<and> bucket_granularity 120 dvd approximateCount 120"
  using approximateCount_monotone_granular [of 50 51 120] by simp

section \<open>Properties of the SyncEngine\<close>

lemma js_rem_nonneg: "0 \<le> a \<Longrightarrow> 0 < b \<Longrightarrow> js_rem a b = a mod b"
  by (cases "a = 0") (simp_all add: js_rem_def)

lemma Math_floor_quotient: "Math_floor (of_int a / of_int b) = a div b"
  by (simp add: Math_floor_def floor_divide_of_int_eq)

lemma Math_ceil_quotient: "Math_ceil (of_int a / 1000) = - ((- a) div 1000)"
  using ceiling_divide_eq_div [of a 1000] by (simp add: Math_ceil_def)

lemma calculateLocalState_parts:
  "calculateLocalState getTime resp now =
     (case ServerSlangResponse.slang resp of
        None \<Rightarrow> Null
      | Some s \<Rightarrow>
          (case elapsed_time getTime resp now of
             None \<Rightarrow> NonFinite
           | Some e \<Rightarrow> derive_state s (ServerSlangResponse.totalDuration resp) e))"
  unfolding calculateLocalState_def elapsed_time_def derive_state_def Let_def
    Math_floor_quotient Math_ceil_quotient
  by (simp split: option.splits)

lemma isSlangExpired_parts:
  "isSlangExpired getTime resp now =
     (case elapsed_time getTime resp now of
        None \<Rightarrow> False
      | Some e \<Rightarrow> e \<ge> ServerSlangResponse.totalDuration resp)"
  unfolding isSlangExpired_def elapsed_time_def Let_def
  by (simp split: option.splits)

lemma calculateLocalState_ValueE:
  assumes "calculateLocalState getTime resp now = Value st"
  obtains s where "ServerSlangResponse.slang resp = Some s" "seconds_per s \<noteq> 0"
    and "elapsedInSlang st < ServerSlangResponse.totalDuration resp"
    and "currentRepeat st = max 1 (repeat_count s - elapsedInSlang st div (seconds_per s * 1000))"
    and "secondsRemaining st =
      min (- ((- (seconds_per s * 1000 - js_rem (elapsedInSlang st) (seconds_per s * 1000))) div 1000))
        (seconds_per s)"
  using assms
  by (auto simp add: calculateLocalState_parts derive_state_def split: option.splits if_splits)

lemma ceil_ms_range:
  fixes ms sp :: int
  assumes "0 < ms" "ms \<le> sp * 1000"
  shows "1 \<le> - ((- ms) div 1000) \<and> - ((- ms) div 1000) \<le> sp"
proof -
  have "(- ms) div 1000 \<le> (- 1) div 1000" using assms(1) by (intro zdiv_mono1) simp_all
  moreover have "(- (sp * 1000)) div 1000 \<le> (- ms) div 1000"
    using assms(2) by (intro zdiv_mono1) simp_all
  ultimately show ?thesis by simp
qed

lemma repeat_index_range:
  fixes e rc spm :: int
  assumes "0 \<le> e" "e < rc * spm" "0 < spm"
  shows "0 \<le> e div spm \<and> e div spm < rc"
proof -
  have "0 \<le> e div spm" using assms by (simp add: pos_imp_zdiv_nonneg_iff)
  moreover have "e div spm < rc"
  proof (rule ccontr)
    assume "\<not> e div spm < rc"
    then have le: "rc * spm \<le> e div spm * spm"
      using assms(3) by (intro mult_right_mono) simp_all
    have m: "0 \<le> e mod spm" using assms(3) by simp
    have d: "e div spm * spm + e mod spm = e" by simp
    from le m d assms(2) show False by linarith
  qed
  ultimately show ?thesis by simp
qed

lemma calculateLocalState_in_range:
  assumes cons: "ServerSlangResponse.slang resp = Some s"
      "ServerSlangResponse.totalDuration resp = repeat_count s * seconds_per s * 1000"
      "1 \<le> repeat_count s" "1 \<le> seconds_per s"
    and res: "calculateLocalState getTime resp now = Value st"
    and nonneg: "0 \<le> elapsedInSlang st"
  shows "1 \<le> currentRepeat st \<and> currentRepeat st \<le> repeat_count s
    \<and> 1 \<le> secondsRemaining st \<and> secondsRemaining st \<le> seconds_per s"
proof -
  let ?e = "elapsedInSlang st" and ?spm = "seconds_per s * 1000"
  from res cons(1) have lt: "?e < ServerSlangResponse.totalDuration resp"
    and cr: "currentRepeat st = max 1 (repeat_count s - ?e div ?spm)"
    and sr: "secondsRemaining st = min (- ((- (?spm - js_rem ?e ?spm)) div 1000)) (seconds_per s)"
    by (auto elim!: calculateLocalState_ValueE)
  have pos: "0 < ?spm" using cons(4) by simp
  from lt cons(2) have "?e < repeat_count s * ?spm" by (simp add: mult.assoc)
  from repeat_index_range [OF nonneg this pos]
  have idx: "0 \<le> ?e div ?spm" "?e div ?spm < repeat_count s" by simp_all
  have rem: "js_rem ?e ?spm = ?e mod ?spm" using nonneg pos by (rule js_rem_nonneg)
  have "0 \<le> ?e mod ?spm" "?e mod ?spm < ?spm" using pos by simp_all
  with rem have "0 < ?spm - js_rem ?e ?spm" "?spm - js_rem ?e ?spm \<le> seconds_per s * 1000"
    by simp_all
  from ceil_ms_range [OF this] cr sr idx cons(3,4) show ?thesis by simp
qed

text \<open>
  Claim C3 (amended). For every response with \<open>receivedAt\<close> set (a stamp other than 0, as
  \<open>Date.now()\<close> writes it), with a slang whose \<open>seconds_per\<close> is positive, and for every
  \<open>now\<close> at which \<open>elapsed = elapsedInSlang + (now - receivedAt)\<close> is not negative,
  \<open>calculateLocalState\<close> uses that elapsed time: below \<open>totalDuration\<close> it returns
  \<open>currentRepeat = max(1, repeat_count - floor(elapsed / (seconds_per * 1000)))\<close> and
  \<open>secondsRemaining = min(seconds_per, ceil((seconds_per * 1000 - elapsed mod (seconds_per * 1000)) / 1000))\<close>,
  and from \<open>totalDuration\<close> on it returns \<open>null\<close>. For the example snapshot received at a
  local time \<open>T\<close>, the states at \<open>T + 500\<close>, \<open>T + 4600\<close>, \<open>T + 5100\<close> and \<open>T + 15000\<close> are
  (3, 5), (3, 1), (2, 5) and \<open>null\<close>. Nothing is said of a negative elapsed time.
\<close>

theorem calculateLocalState_received:
  assumes "ServerSlangResponse.slang resp = Some s" and "receivedAt resp = Some r" and "r \<noteq> 0"
    and "0 < seconds_per s" and "0 \<le> ServerSlangResponse.elapsedInSlang resp + (now - r)"
    and "T \<noteq> 0"
  shows "(let elapsed = ServerSlangResponse.elapsedInSlang resp + (now - r);
              secondsPerMs = seconds_per s * 1000
          in calculateLocalState getTime resp now =
               (if elapsed < ServerSlangResponse.totalDuration resp
                then Value \<lparr>slang = s,
                       currentRepeat =
                         max 1 (repeat_count s - \<lfloor>of_int elapsed / of_int secondsPerMs :: real\<rfloor>),
                       secondsRemaining =
                         min (seconds_per s)
                           \<lceil>of_int (secondsPerMs - elapsed mod secondsPerMs) / 1000 :: real\<rceil>,
                       totalDuration = ServerSlangResponse.totalDuration resp,
                       elapsedInSlang = elapsed\<rparr>
                else Null))
    \<and> calculateLocalState getTime (example_response T) (T + 500) =
        Value \<lparr>slang = example_slang, currentRepeat = 3, secondsRemaining = 5,
          totalDuration = 15000, elapsedInSlang = 500\<rparr>
    \<and> calculateLocalState getTime (example_response T) (T + 4600) =
        Value \<lparr>slang = example_slang, currentRepeat = 3, secondsRemaining = 1,
          totalDuration = 15000, elapsedInSlang = 4600\<rparr>
    \<and> calculateLocalState getTime (example_response T) (T + 5100) =
        Value \<lparr>slang = example_slang, currentRepeat = 2, secondsRemaining = 5,
          totalDuration = 15000, elapsedInSlang = 5100\<rparr>
    \<and> calculateLocalState getTime (example_response T) (T + 15000) = Null"
proof -
  let ?e = "ServerSlangResponse.elapsedInSlang resp + (now - r)"
  have ex: "calculateLocalState getTime (example_response T) (T + d) = derive_state example_slang 15000 d"
    for d
    using assms(6)
    by (simp add: calculateLocalState_parts elapsed_time_def truthy_def example_response_def)
  have rem: "js_rem ?e (seconds_per s * 1000) = ?e mod (seconds_per s * 1000)"
    using assms(4,5) by (intro js_rem_nonneg) simp_all
  have general: "calculateLocalState getTime resp now =
      (if ?e < ServerSlangResponse.totalDuration resp
       then Value \<lparr>slang = s,
              currentRepeat =
                max 1 (repeat_count s - \<lfloor>of_int ?e / of_int (seconds_per s * 1000) :: real\<rfloor>),
              secondsRemaining =
                min (seconds_per s)
                  \<lceil>of_int (seconds_per s * 1000 - js_rem ?e (seconds_per s * 1000)) / 1000 :: real\<rceil>,
              totalDuration = ServerSlangResponse.totalDuration resp,
              elapsedInSlang = ?e\<rparr>
       else Null)"
    using assms(1-4)
    by (simp add: calculateLocalState_def truthy_def Let_def Math_floor_def Math_ceil_def
        min.commute)
  have examples: "derive_state example_slang 15000 500 =
        Value \<lparr>slang = example_slang, currentRepeat = 3, secondsRemaining = 5,
          totalDuration = 15000, elapsedInSlang = 500\<rparr>"
      "derive_state example_slang 15000 4600 =
        Value \<lparr>slang = example_slang, currentRepeat = 3, secondsRemaining = 1,
          totalDuration = 15000, elapsedInSlang = 4600\<rparr>"
      "derive_state example_slang 15000 5100 =
        Value \<lparr>slang = example_slang, currentRepeat = 2, secondsRemaining = 5,
          totalDuration = 15000, elapsedInSlang = 5100\<rparr>"
      "derive_state example_slang 15000 15000 = Null"
    by (simp_all add: derive_state_def example_slang_def js_rem_def)
  show ?thesis
    unfolding Let_def ex examples using general unfolding rem by simp
qed

theorem calculateLocalState_received_witness:
  "ServerSlangResponse.slang (example_response 1000) = Some example_slang
    \<and> receivedAt (example_response 1000) = Some 1000 \<and> (1000::int) \<noteq> 0
    \<and> 0 < seconds_per example_slang
    \<and> 0 \<le> ServerSlangResponse.elapsedInSlang (example_response 1000) + (5600 - 1000)
    \<and> calculateLocalState getTime_epoch (example_response 1000) (1000 + 4600) =
        Value \<lparr>slang = example_slang, currentRepeat = 3, secondsRemaining = 1,
          totalDuration = 15000, elapsedInSlang = 4600\<rparr>"
  using calculateLocalState_received
    [where resp = "example_response 1000" and s = example_slang and r = 1000 and T = 1000
      and getTime = getTime_epoch and now = 5600]
  by (simp add: example_response_def example_slang_def)

text \<open>
  The claim as it was stated, for every \<open>now\<close>, fails when the local clock reads less
  than it did at receipt. For the example snapshot received at 10000 and read at 9000
  the elapsed time is \<open>-1000\<close>: the claim's formula leaves
  \<open>min(5, ceil((5000 - (-1000 mod 5000)) / 1000)) = 1\<close> second, and the code, whose
  remainder takes the sign of the elapsed time, returns 5.
\<close>

theorem calculateLocalState_received_counterexample:
  "receivedAt (example_response 10000) = Some 10000
    \<and> ServerSlangResponse.elapsedInSlang (example_response 10000) + (9000 - 10000) = - 1000
    \<and> calculateLocalState getTime_epoch (example_response 10000) 9000 =
        Value \<lparr>slang = example_slang, currentRepeat = 4, secondsRemaining = 5,
          totalDuration = 15000, elapsedInSlang = - 1000\<rparr>
    \<and> min (seconds_per example_slang) \<lceil>of_int (5000 - (- 1000) mod 5000) / 1000 :: real\<rceil> = 1"
  by (simp add: calculateLocalState_parts elapsed_time_def truthy_def derive_state_def
      example_response_def example_slang_def js_rem_def)

text \<open>
  Claim C4. The claim asks, for a consistent snapshot and every \<open>now\<close>, that a state
  returned has \<open>currentRepeat\<close> between 1 and \<open>repeat_count\<close>. The code clamps
  \<open>currentRepeat\<close> from below only: when the local clock reads less than it did at
  receipt, the elapsed time is negative and the repeat shown exceeds \<open>repeat_count\<close>. The
  example snapshot received at 10000 and read at 4000 shows repeat 5 of 3.
\<close>

theorem calculateLocalState_repeat_above_count:
  "calculateLocalState getTime (example_response 10000) 4000 =
      Value \<lparr>slang = example_slang, currentRepeat = 5, secondsRemaining = 5,
        totalDuration = 15000, elapsedInSlang = - 6000\<rparr>
    \<and> repeat_count example_slang = 3 \<and> seconds_per example_slang = 5
    \<and> ServerSlangResponse.totalDuration (example_response 10000) =
        repeat_count example_slang * seconds_per example_slang * 1000
    \<and> ServerSlangResponse.elapsedInSlang (example_response 10000) = 0"
  by (simp add: calculateLocalState_parts elapsed_time_def truthy_def derive_state_def
      example_response_def example_slang_def js_rem_def)

text \<open>
  Claim C10. For every response with a slang and every \<open>now\<close>, \<open>calculateLocalState\<close>
  returns \<open>null\<close> exactly when \<open>isSlangExpired\<close> returns true: both compute the elapsed
  time by the same rule, the start-time fallback included.
\<close>

theorem calculateLocalState_null_iff_expired:
  "ServerSlangResponse.slang resp \<noteq> None \<Longrightarrow>
     (calculateLocalState getTime resp now = Null) = isSlangExpired getTime resp now"
  by (auto simp add: calculateLocalState_def isSlangExpired_def Let_def split: option.splits)

theorem calculateLocalState_null_iff_expired_witness:
  "ServerSlangResponse.slang zero_received_response \<noteq> None
    \<and> (calculateLocalState getTime_epoch zero_received_response 15000 = Null)
    \<and> isSlangExpired getTime_epoch zero_received_response 15000"
  using calculateLocalState_null_iff_expired [of zero_received_response getTime_epoch 15000]
  by (simp add: isSlangExpired_parts elapsed_time_def truthy_def endsWith_def
      getTime_epoch_def zero_received_response_def)

section \<open>Properties of the VoteAggregator\<close>

lemma vote_effects:
  assumes "voterId = Some vid" "vid \<noteq> []"
  shows "\<exists>info. vote voterId votes slangId val outcome =
      [SetVotes slangId info,
       SubmitVote slangId vid (if userVote (captured votes slangId) = Some val then 0 else val)]
      @ (if rejected outcome then [SetVotes slangId (captured votes slangId)] else [])
    \<and> (val = 1 \<or> val = - 1 \<longrightarrow>
         tally_userVote (tally_of (votes slangId)) \<in> {- 1, 0, 1} \<longrightarrow>
         tally_of (Some info) = toggle_spec (tally_of (votes slangId)) val)"
  using assms
  by (cases "votes slangId"; cases outcome)
    (auto simp add: vote_def falsy_string_def captured_def rejected_def Let_def tally_of_def
      toggle_spec_def add_to_bucket_def split: option.splits)

lemma toggle_spec_userVote:
  "tally_userVote (toggle_spec t direction) = (if direction = tally_userVote t then 0 else direction)"
  by (simp add: toggle_spec_def Let_def)

lemma captured_userVote:
  "tally_userVote (tally_of (votes slangId)) \<in> {- 1, 0, 1} \<Longrightarrow> val = 1 \<or> val = - 1 \<Longrightarrow>
    (userVote (captured votes slangId) = Some val) = (val = tally_userVote (tally_of (votes slangId)))"
  by (auto simp add: captured_def tally_of_def split: option.splits)

text \<open>
  Claim C5 (amended). Whenever the voter id has been loaded (it is neither \<open>null\<close> nor
  empty), for every item id and direction in \<open>{+1, -1}\<close>, \<open>vote\<close> first writes to the local
  map the tally that the toggle rule gives (same vote: cleared and its bucket
  decremented; no vote: set, and its bucket incremented; other side: old bucket
  decremented, new one incremented, vote set), and only then issues the remote call,
  which carries the resulting vote: 0 for a toggle-off and the direction otherwise. From
  \<open>{0, 0, 0}\<close> a vote \<open>+1\<close> gives \<open>{1, 0, +1}\<close>, a second one \<open>{0, 0, 0}\<close>, and from \<open>{1, 0, +1}\<close> a
  vote \<open>-1\<close> gives \<open>{0, 1, -1}\<close>.
\<close>

theorem vote_toggle:
  assumes "voterId = Some vid" and "vid \<noteq> []" and "val = 1 \<or> val = - 1"
    and "tally_userVote (tally_of (votes slangId)) \<in> {- 1, 0, 1}"
  shows "(\<exists>info rest. vote voterId votes slangId val outcome =
            SetVotes slangId info
            # SubmitVote slangId vid (tally_userVote (toggle_spec (tally_of (votes slangId)) val))
            # rest
          \<and> tally_of (Some info) = toggle_spec (tally_of (votes slangId)) val)
    \<and> tally_userVote (toggle_spec (tally_of (votes slangId)) val) =
        (if val = tally_userVote (tally_of (votes slangId)) then 0 else val)
    \<and> toggle_spec \<lparr>tally_likes = 0, tally_dislikes = 0, tally_userVote = 0\<rparr> 1 =
        \<lparr>tally_likes = 1, tally_dislikes = 0, tally_userVote = 1\<rparr>
    \<and> toggle_spec \<lparr>tally_likes = 1, tally_dislikes = 0, tally_userVote = 1\<rparr> 1 =
        \<lparr>tally_likes = 0, tally_dislikes = 0, tally_userVote = 0\<rparr>
    \<and> toggle_spec \<lparr>tally_likes = 1, tally_dislikes = 0, tally_userVote = 1\<rparr> (- 1) =
        \<lparr>tally_likes = 0, tally_dislikes = 1, tally_userVote = - 1\<rparr>
    \<and> vote voterId (Map.empty(slangId \<mapsto> \<lparr>score = 0, likes = 0, dislikes = 0, userVote = None\<rparr>))
          slangId 1 (Resolved (Some ''ok'') None) =
        [SetVotes slangId \<lparr>score = 1, likes = 1, dislikes = 0, userVote = Some 1\<rparr>,
         SubmitVote slangId vid 1]
    \<and> vote voterId (Map.empty(slangId \<mapsto> \<lparr>score = 1, likes = 1, dislikes = 0, userVote = Some 1\<rparr>))
          slangId 1 (Resolved (Some ''ok'') None) =
        [SetVotes slangId \<lparr>score = 0, likes = 0, dislikes = 0, userVote = None\<rparr>,
         SubmitVote slangId vid 0]
    \<and> vote voterId (Map.empty(slangId \<mapsto> \<lparr>score = 1, likes = 1, dislikes = 0, userVote = Some 1\<rparr>))
          slangId (- 1) (Resolved (Some ''ok'') None) =
        [SetVotes slangId \<lparr>score = - 1, likes = 0, dislikes = 1, userVote = Some (- 1)\<rparr>,
         SubmitVote slangId vid (- 1)]"
proof -
  from vote_effects [OF assms(1,2), of votes slangId val outcome] assms(3,4)
  obtain info where
    eff: "vote voterId votes slangId val outcome =
      [SetVotes slangId info,
       SubmitVote slangId vid (if userVote (captured votes slangId) = Some val then 0 else val)]
      @ (if rejected outcome then [SetVotes slangId (captured votes slangId)] else [])"
    and tally: "tally_of (Some info) = toggle_spec (tally_of (votes slangId)) val"
    by blast
  have carried: "(if userVote (captured votes slangId) = Some val then 0 else val) =
      tally_userVote (toggle_spec (tally_of (votes slangId)) val)"
    using captured_userVote [of votes slangId val] assms(3,4)
    by (simp add: toggle_spec_userVote)
  have first: "\<exists>info rest. vote voterId votes slangId val outcome =
        SetVotes slangId info
        # SubmitVote slangId vid (tally_userVote (toggle_spec (tally_of (votes slangId)) val))
        # rest
      \<and> tally_of (Some info) = toggle_spec (tally_of (votes slangId)) val"
    using eff tally unfolding carried by auto
  have spec_examples:
    "toggle_spec \<lparr>tally_likes = 0, tally_dislikes = 0, tally_userVote = 0\<rparr> 1 =
        \<lparr>tally_likes = 1, tally_dislikes = 0, tally_userVote = 1\<rparr>"
    "toggle_spec \<lparr>tally_likes = 1, tally_dislikes = 0, tally_userVote = 1\<rparr> 1 =
        \<lparr>tally_likes = 0, tally_dislikes = 0, tally_userVote = 0\<rparr>"
    "toggle_spec \<lparr>tally_likes = 1, tally_dislikes = 0, tally_userVote = 1\<rparr> (- 1) =
        \<lparr>tally_likes = 0, tally_dislikes = 1, tally_userVote = - 1\<rparr>"
    by (simp_all add: toggle_spec_def add_to_bucket_def)
  have code_examples:
    "vote voterId (Map.empty(slangId \<mapsto> \<lparr>score = 0, likes = 0, dislikes = 0, userVote = None\<rparr>))
          slangId 1 (Resolved (Some ''ok'') None) =
        [SetVotes slangId \<lparr>score = 1, likes = 1, dislikes = 0, userVote = Some 1\<rparr>,
         SubmitVote slangId vid 1]"
    "vote voterId (Map.empty(slangId \<mapsto> \<lparr>score = 1, likes = 1, dislikes = 0, userVote = Some 1\<rparr>))
          slangId 1 (Resolved (Some ''ok'') None) =
        [SetVotes slangId \<lparr>score = 0, likes = 0, dislikes = 0, userVote = None\<rparr>,
         SubmitVote slangId vid 0]"
    "vote voterId (Map.empty(slangId \<mapsto> \<lparr>score = 1, likes = 1, dislikes = 0, userVote = Some 1\<rparr>))
          slangId (- 1) (Resolved (Some ''ok'') None) =
        [SetVotes slangId \<lparr>score = - 1, likes = 0, dislikes = 1, userVote = Some (- 1)\<rparr>,
         SubmitVote slangId vid (- 1)]"
    using assms(1,2) by (simp_all add: vote_def falsy_string_def)
  show ?thesis
    using first toggle_spec_userVote [of "tally_of (votes slangId)" val]
      spec_examples code_examples
    by simp
qed

theorem vote_toggle_witness:
  "Some ''voter'' = Some ''voter'' \<and> ''voter'' \<noteq> [] \<and> ((- 1::int) = 1 \<or> (- 1::int) = - 1)
    \<and> tally_userVote (tally_of
          ((Map.empty(''a'' \<mapsto> \<lparr>score = 1, likes = 1, dislikes = 0, userVote = Some 1\<rparr>)) ''a''))
        \<in> {- 1, 0, 1}
    \<and> vote (Some ''voter'')
          (Map.empty(''a'' \<mapsto> \<lparr>score = 1, likes = 1, dislikes = 0, userVote = Some 1\<rparr>))
          ''a'' (- 1) (Resolved (Some ''ok'') None) =
        [SetVotes ''a'' \<lparr>score = - 1, likes = 0, dislikes = 1, userVote = Some (- 1)\<rparr>,
         SubmitVote ''a'' ''voter'' (- 1)]"
  using vote_toggle [where voterId = "Some ''voter''" and vid = "''voter''" and val = "- 1"
      and votes = "Map.empty(''a'' \<mapsto> \<lparr>score = 1, likes = 1, dislikes = 0, userVote = Some 1\<rparr>)"
      and slangId = "''a''" and outcome = "Resolved (Some ''ok'') None"]
  by (simp add: tally_of_def)

text \<open>
  The claim as it was stated, for every call, fails while the voter id is not loaded:
  \<open>vote\<close> returns at its guard, the tally \<open>{0, 0, 0}\<close> stays as it is and no remote call is
  made.
\<close>

theorem vote_toggle_counterexample:
  "vote None (Map.empty(''a'' \<mapsto> \<lparr>score = 0, likes = 0, dislikes = 0, userVote = None\<rparr>))
      ''a'' 1 (Resolved (Some ''ok'') None) = []
    \<and> foldl apply_effect (Map.empty(''a'' \<mapsto> \<lparr>score = 0, likes = 0, dislikes = 0, userVote = None\<rparr>))
        (vote None (Map.empty(''a'' \<mapsto> \<lparr>score = 0, likes = 0, dislikes = 0, userVote = None\<rparr>))
          ''a'' 1 (Resolved (Some ''ok'') None)) ''a''
      = Some \<lparr>score = 0, likes = 0, dislikes = 0, userVote = None\<rparr>"
  by (simp add: vote_def falsy_string_def)

text \<open>
  Claim C6. Whenever the remote call of a \<open>vote\<close> throws, reports an error or answers
  \<open>rate_limited\<close>, the last effect of the call writes back, for that item, exactly the
  score, likes, dislikes and user vote captured before the optimistic update: applied
  to any map it leaves that entry equal to the snapshot and every other entry as it
  was, and when nothing else touched the map in between, the map is the one before the
  call.
\<close>

theorem vote_rollback:
  assumes "voterId = Some vid" and "vid \<noteq> []" and "rejected outcome"
  shows "length (vote voterId votes slangId val outcome) = 3
    \<and> last (vote voterId votes slangId val outcome) = SetVotes slangId (captured votes slangId)
    \<and> apply_effect prev (last (vote voterId votes slangId val outcome)) =
        prev(slangId \<mapsto> captured votes slangId)
    \<and> (votes slangId = Some c \<longrightarrow>
         captured votes slangId = c
         \<and> foldl apply_effect votes (vote voterId votes slangId val outcome) = votes)"
proof -
  from vote_effects [OF assms(1,2), of votes slangId val outcome] assms(3)
  obtain info where
    eff: "vote voterId votes slangId val outcome =
      [SetVotes slangId info,
       SubmitVote slangId vid (if userVote (captured votes slangId) = Some val then 0 else val),
       SetVotes slangId (captured votes slangId)]"
    by auto
  have "captured votes slangId = c \<and> votes(slangId \<mapsto> c) = votes" if "votes slangId = Some c"
    using that by (auto simp add: captured_def)
  then show ?thesis
    unfolding eff by simp
qed

theorem vote_rollback_witness:
  "Some ''voter'' = Some ''voter'' \<and> ''voter'' \<noteq> [] \<and> rejected (Resolved (Some ''rate_limited'') None)
    \<and> last (vote (Some ''voter'')
          (Map.empty(''a'' \<mapsto> \<lparr>score = 1, likes = 1, dislikes = 0, userVote = Some 1\<rparr>))
          ''a'' (- 1) (Resolved (Some ''rate_limited'') None)) =
        SetVotes ''a'' \<lparr>score = 1, likes = 1, dislikes = 0, userVote = Some 1\<rparr>"
  using vote_rollback [where voterId = "Some ''voter''" and vid = "''voter''" and val = "- 1"
      and votes = "Map.empty(''a'' \<mapsto> \<lparr>score = 1, likes = 1, dislikes = 0, userVote = Some 1\<rparr>)"
      and slangId = "''a''" and outcome = "Resolved (Some ''rate_limited'') None"]
  by (simp add: rejected_def captured_def)

section \<open>Properties of the LocationResolver\<close>

lemma split_comma:
  "c \<in> set s \<Longrightarrow> \<exists>la lo rest. split c s = la # lo # rest"
proof (induction s)
  case Nil
  then show ?case by simp
next
  case (Cons x xs)
  show ?case
  proof (cases "x = c")
    case True
    then show ?thesis by (cases xs) (auto split: list.splits)
  next
    case False
    with Cons obtain la lo rest where "split c xs = la # lo # rest" by auto
    with False show ?thesis by simp
  qed
qed

lemma standard_adapters:
  "parse_geojs str2num d = None \<longleftrightarrow>
     ToNumber str2num (d ''latitude'') = NaN \<or> ToNumber str2num (d ''longitude'') = NaN
     \<or> ToNumber str2num (d ''latitude'') = Num 0"
  "parse_freeipapi str2num d = None \<longleftrightarrow>
     ToNumber str2num (d ''latitude'') = NaN \<or> ToNumber str2num (d ''longitude'') = NaN
     \<or> ToNumber str2num (d ''latitude'') = Num 0"
  "parse_ipwhois_app str2num d = None \<longleftrightarrow>
     ToNumber str2num (d ''latitude'') = NaN \<or> ToNumber str2num (d ''longitude'') = NaN
     \<or> ToNumber str2num (d ''latitude'') = Num 0"
  "parse_ipwho_is str2num d = None \<longleftrightarrow>
     ToNumber str2num (d ''latitude'') = NaN \<or> ToNumber str2num (d ''longitude'') = NaN
     \<or> ToNumber str2num (d ''latitude'') = Num 0"
  by (simp_all add: parse_geojs_def parse_freeipapi_def parse_ipwhois_app_def parse_ipwho_is_def
      isNaN_def Let_def)

lemma ipinfo_adapter:
  "parse_ipinfo str2num d = None \<longleftrightarrow>
     (\<forall>loc. d ''loc'' = JString loc \<longrightarrow>
        CHR '','' \<notin> set loc
        \<or> str2num (split CHR '','' loc ! 0) = NaN \<or> str2num (split CHR '','' loc ! 1) = NaN
        \<or> str2num (split CHR '','' loc ! 0) = Num 0)"
proof (cases "d ''loc''")
  case (JString loc)
  show ?thesis
  proof (cases "CHR '','' \<in> set loc")
    case True
    from split_comma [OF this] obtain la lo rest where "split CHR '','' loc = la # lo # rest"
      by blast
    with JString True show ?thesis by (simp add: parse_ipinfo_def isNaN_def Let_def)
  next
    case False
    with JString show ?thesis by (simp add: parse_ipinfo_def)
  qed
qed (simp_all add: parse_ipinfo_def)

lemma first_fulfilled_None:
  "first_fulfilled str2num as = None \<longleftrightarrow> list_all (\<lambda>a. endpoint_attempt str2num a = None) as"
  by (induction as) (auto split: option.splits)

lemma fetchGeo_None: "fetchGeo str2num env = None \<longleftrightarrow> all_fail str2num env"
  by (simp add: fetchGeo_def all_fail_def fetchExternalGeo_def first_fulfilled_None
      split: option.splits)

text \<open>
  Claim C7 (amended). \<open>ipGeolocate\<close> resolves to \<open>null\<close> exactly when no fresh cached result
  exists and, in the request it waits for (the one in flight, or else its own), the
  first-party lookup and every third-party attempt fail. A cached result that is stale
  does not prevent \<open>null\<close>; a fresh one does.
\<close>

theorem ipGeolocate_null:
  "(resolves_to str2num (fst (ipGeolocate st now env)) = None \<longleftrightarrow>
      \<not> fresh st now \<and> all_fail str2num (awaited st env))
    \<and> (fresh st now \<longrightarrow> resolves_to str2num (fst (ipGeolocate st now env)) = cachedResult st)"
  by (auto simp add: ipGeolocate_def resolves_to_def fresh_def awaited_def fetchGeo_None
      split: option.splits)

theorem ipGeolocate_null_witness:
  "fresh cached_state 1000
    \<and> resolves_to decimal_str2num (fst (ipGeolocate cached_state 1000 offline)) = Some tehran"
  using ipGeolocate_null [of decimal_str2num cached_state 1000 offline]
  by (simp add: fresh_def cached_state_def CACHE_MAX_AGE_MS_def)

text \<open>
  The claim as it was stated, that a call does not return \<open>null\<close> whenever any cached
  result exists, fresh or stale, fails: with a result cached at time 0, a call at 400000
  (more than five minutes later) whose lookups all fail resolves to \<open>null\<close>.
\<close>

theorem ipGeolocate_null_counterexample:
  "cachedResult cached_state = Some tehran
    \<and> resolves_to decimal_str2num (fst (ipGeolocate cached_state 400000 offline)) = None"
  by (simp add: ipGeolocate_def resolves_to_def cached_state_def offline_def CACHE_MAX_AGE_MS_def
      fetchGeo_def fetchVercelGeo_def fetchExternalGeo_def endpoint_attempt_def
      fallbackEndpoints_def)

text \<open>
  Claim C8 (amended). Each of the five third-party parsers returns \<open>null\<close> exactly when the
  latitude or the longitude converts to \<open>NaN\<close> under \<open>Number\<close>, or the latitude converts to
  zero. For the first four the two are the properties \<open>latitude\<close> and \<open>longitude\<close>; for
  ipinfo they are the first two parts of \<open>loc\<close> split at commas, and a \<open>loc\<close> that is not a
  string or has no comma gives \<open>null\<close> too. A longitude of zero is not rejected.
\<close>

theorem adapters_reject_invalid:
  "(parse_geojs str2num d = None \<longleftrightarrow>
      ToNumber str2num (d ''latitude'') = NaN \<or> ToNumber str2num (d ''longitude'') = NaN
      \<or> ToNumber str2num (d ''latitude'') = Num 0)
    \<and> (parse_freeipapi str2num d = None \<longleftrightarrow>
      ToNumber str2num (d ''latitude'') = NaN \<or> ToNumber str2num (d ''longitude'') = NaN
      \<or> ToNumber str2num (d ''latitude'') = Num 0)
    \<and> (parse_ipwhois_app str2num d = None \<longleftrightarrow>
      ToNumber str2num (d ''latitude'') = NaN \<or> ToNumber str2num (d ''longitude'') = NaN
      \<or> ToNumber str2num (d ''latitude'') = Num 0)
    \<and> (parse_ipwho_is str2num d = None \<longleftrightarrow>
      ToNumber str2num (d ''latitude'') = NaN \<or> ToNumber str2num (d ''longitude'') = NaN
      \<or> ToNumber str2num (d ''latitude'') = Num 0)
    \<and> (parse_ipinfo str2num d = None \<longleftrightarrow>
      (\<forall>loc. d ''loc'' = JString loc \<longrightarrow>
         CHR '','' \<notin> set loc
         \<or> str2num (split CHR '','' loc ! 0) = NaN \<or> str2num (split CHR '','' loc ! 1) = NaN
         \<or> str2num (split CHR '','' loc ! 0) = Num 0))
    \<and> map parse fallbackEndpoints =
        [parse_geojs, parse_freeipapi, parse_ipwhois_app, parse_ipwho_is, parse_ipinfo]"
  using standard_adapters [of str2num d] ipinfo_adapter [of str2num d]
  by (simp add: fallbackEndpoints_def)

theorem adapters_reject_invalid_witness:
  "zero_latitude_loc ''loc'' = JString ''0,51.4''
    \<and> decimal_str2num (split CHR '','' ''0,51.4'' ! 0) = Num 0
    \<and> parse_ipinfo decimal_str2num zero_latitude_loc = None
    \<and> ToNumber decimal_str2num (zero_latitude_loc ''latitude'') = NaN
    \<and> parse_geojs decimal_str2num zero_latitude_loc = None"
  using adapters_reject_invalid [of decimal_str2num zero_latitude_loc]
  by (simp add: zero_latitude_loc_def decimal_str2num_def unsigned_decimal_def is_digit_def
      digits_value_def digit_value_def)

text \<open>
  The claim as it was stated, that a zero-valued or non-numeric latitude or longitude is
  rejected, fails for the longitude: a body with latitude 51.5 and longitude 0 is
  accepted, and so is one whose longitude is \<open>null\<close> and whose latitude is \<open>true\<close>, which
  \<open>Number\<close> converts to 0 and 1.
\<close>

theorem adapters_reject_invalid_counterexample:
  "greenwich_body ''longitude'' = JNumber (Num 0)
    \<and> parse_geojs decimal_str2num greenwich_body =
        Some \<lparr>IPGeoResult.lat = Num (515 / 10), IPGeoResult.lng = Num 0, city = JString ''London''\<rparr>
    \<and> null_longitude_body ''longitude'' = JNull \<and> null_longitude_body ''latitude'' = JBool True
    \<and> parse_geojs decimal_str2num null_longitude_body =
        Some \<lparr>IPGeoResult.lat = Num 1, IPGeoResult.lng = Num 0, city = JNull\<rparr>"
  by (simp add: parse_geojs_def greenwich_body_def null_longitude_body_def isNaN_def or_null_def)

section \<open>Properties of the PresenceHeartbeat\<close>

text \<open>
  Claim C9 (amended). For every heartbeat whose remote call fails, by an RPC error or a
  network exception, \<open>sendHeartbeat\<close> resolves to false without throwing and leaves the
  \<open>ServerCrowdState\<close> as it was in every field: \<open>nearbyCount\<close> and the approximate count
  keep their values, and so do \<open>isActive\<close> and \<open>error\<close>; no listener is notified.
\<close>

theorem sendHeartbeat_failure:
  assumes "heartbeat_fails outcome"
  shows "fst (sendHeartbeat str2num this geo now env later outcome) = False
    \<and> state (fst (snd (sendHeartbeat str2num this geo now env later outcome))) = state this
    \<and> notified (fst (snd (sendHeartbeat str2num this geo now env later outcome))) = notified this"
  using assms
  by (auto simp add: sendHeartbeat_def heartbeat_fails_def getCoords_def Let_def
      split: prod.splits option.splits heartbeat_outcome.splits if_splits)

theorem sendHeartbeat_failure_witness:
  "heartbeat_fails (HeartbeatResolved (Count 3) (Some ''timeout''))
    \<and> fst (sendHeartbeat decimal_str2num active_counter cached_state 2000 offline 2500
          (HeartbeatResolved (Count 3) (Some ''timeout''))) = False
    \<and> nearbyCount (state (fst (snd (sendHeartbeat decimal_str2num active_counter cached_state 2000
          offline 2500 (HeartbeatResolved (Count 3) (Some ''timeout'')))))) = 9"
  using sendHeartbeat_failure [of "HeartbeatResolved (Count 3) (Some ''timeout'')"
      decimal_str2num active_counter cached_state 2000 offline 2500]
  by (simp add: heartbeat_fails_def active_counter_def)

text \<open>
  The claim as it was stated, that a failed heartbeat sets the active flag to false and
  records the error, fails: after a network exception the counter is unchanged, still
  active and with no error recorded.
\<close>

theorem sendHeartbeat_failure_counterexample:
  "sendHeartbeat decimal_str2num active_counter cached_state 2000 offline 2500 HeartbeatRejected =
      (False, active_counter, cached_state)
    \<and> isActive (state active_counter) \<and> error (state active_counter) = None"
  by (simp add: sendHeartbeat_def getCoords_def active_counter_def falsy_string_def
      COORDS_MAX_AGE_MS_def)

end
